theory Spec2Isabelle
  imports Main "HOL-Library.AList"
begin

section \<open>Pseudo potential families: data model\<close>

text \<open>
  A shallow embedding of \<^verbatim>\<open>aiida_pseudo/groups/family/pseudo.py\<close>, the class
  \<^verbatim>\<open>PseudoPotentialFamily\<close>. Python objects are records, exceptions are values of the
  type \<open>error\<close>, and a method that mutates \<^verbatim>\<open>self\<close> returns the family next to its
  result, also when it raises: an exception does not undo the assignments made before it.
\<close>

subsection \<open>Classes and pseudo potential nodes\<close>

text \<open>
  A Python class is its name with the names of its proper superclasses. \<^verbatim>\<open>type(x) is T\<close>
  is equality of classes, \<^verbatim>\<open>issubclass\<close> looks the name up among the superclasses.
\<close>

record pyclass =
  cname :: string
  ancestors :: "string list"

definition issubclass :: "pyclass \<Rightarrow> pyclass \<Rightarrow> bool" where
  "issubclass c d \<longleftrightarrow> cname c = cname d \<or> cname d \<in> set (ancestors c)"

definition PseudoPotentialData :: pyclass where
  "PseudoPotentialData = \<lparr>cname = ''PseudoPotentialData'', ancestors = [''Data'', ''Node'']\<rparr>"

text \<open>
  A node: \<open>ptype\<close> is \<^verbatim>\<open>type(node)\<close>, \<open>element\<close> is \<^verbatim>\<open>node.element\<close> where \<open>None\<close> is
  Python's \<^verbatim>\<open>None\<close> (the constructor left the element unset).
\<close>

record pseudo =
  ptype :: pyclass
  element :: "string option"
  filename :: string
  content :: string
  node_stored :: bool

definition isinstance :: "pseudo \<Rightarrow> pyclass \<Rightarrow> bool" where
  "isinstance node c \<longleftrightarrow> issubclass (ptype node) c"

subsection \<open>Exceptions\<close>

text \<open>
  One constructor of \<open>msg\<close> for each message the module formats; \<open>Text\<close> and
  \<open>InvalidElement\<close> are for messages that come from outside it.
\<close>

datatype msg =
    Text string
  | NotASubclass
  | NotADirectory string
  | NotAFile string
  | FailedToParse string msg
  | NoElementInFilename pyclass string
  | NoPseudosParsed string
  | DuplicateElements string
  | AlreadyExists string string
  | UnstoredGroup
  | OnlyNodesOfType pyclass
  | ElementAlreadyPresent "string option"
  | MultiplePseudos string "string option"
  | NoPseudoForElement string "string option"
  | InvalidElement string

text \<open>
  The exception classes the module raises or catches: the builtins \<^verbatim>\<open>ValueError\<close>,
  \<^verbatim>\<open>TypeError\<close> and \<^verbatim>\<open>RuntimeError\<close>, and \<^verbatim>\<open>ParsingError\<close>,
  \<^verbatim>\<open>ModificationNotAllowed\<close>, \<^verbatim>\<open>NotExistent\<close> and \<^verbatim>\<open>MultipleObjectsError\<close> of
  \<^verbatim>\<open>aiida.common.exceptions\<close>. None of them is a subclass of another.
\<close>

datatype error =
    is_ValueError: ValueError msg
  | is_TypeError: TypeError msg
  | is_RuntimeError: RuntimeError msg
  | is_ParsingError: ParsingError msg
  | is_ModificationNotAllowed: ModificationNotAllowed msg
  | is_NotExistent: NotExistent msg
  | is_MultipleObjectsError: MultipleObjectsError msg

subsection \<open>Dictionaries\<close>

text \<open>
  A Python \<^verbatim>\<open>dict\<close> keeps its keys in insertion order: an association list, where
  \<^verbatim>\<open>d[k] = v\<close> is \<open>AList.update\<close> (replace in place, or append a new key).
\<close>

type_synonym pseudo_dict = "(string option \<times> pseudo) list"

definition dict_keys :: "pseudo_dict \<Rightarrow> string option list" where
  "dict_keys d = map fst d"

definition dict_update :: "pseudo_dict \<Rightarrow> pseudo_dict \<Rightarrow> pseudo_dict" where
  \<comment> \<open>\<^verbatim>\<open>d.update(other)\<close>\<close>
  "dict_update d other = fold (\<lambda>(k, v). AList.update k v) other d"

subsection \<open>The family\<close>

text \<open>
  \<open>pseudo_type\<close> is the class attribute \<^verbatim>\<open>_pseudo_type\<close>, \<open>pseudos_cache\<close> the attribute
  \<^verbatim>\<open>_pseudos\<close> (\<open>None\<close> until the property \<^verbatim>\<open>pseudos\<close> is first read), \<open>pk\<close> the
  primary key (\<open>None\<close> while the group is not stored) and \<open>nodes\<close> what \<^verbatim>\<open>self.nodes\<close>
  iterates over: the nodes the group holds in the database.
\<close>

record family =
  class_name :: string
  pseudo_type :: pyclass
  label :: string
  description :: "string option"
  pk :: "nat option"
  pseudos_cache :: "pseudo_dict option"
  nodes :: "pseudo list"

definition is_stored :: "family \<Rightarrow> bool" where
  "is_stored self \<longleftrightarrow> pk self \<noteq> None"

definition pseudos :: "family \<Rightarrow> pseudo_dict \<times> family" where
  \<comment> \<open>the property \<^verbatim>\<open>pseudos\<close>: builds the dictionary from the nodes on first access\<close>
  "pseudos self =
     (case pseudos_cache self of
        None \<Rightarrow>
          (let d = fold (\<lambda>p. AList.update (element p) p) (nodes self) []
           in (d, self\<lparr>pseudos_cache := Some d\<rparr>))
      | Some d \<Rightarrow> (d, self))"

definition elements :: "family \<Rightarrow> string option list \<times> family" where
  \<comment> \<open>the property \<^verbatim>\<open>elements\<close>: \<^verbatim>\<open>list(self.pseudos.keys())\<close>\<close>
  "elements self = (let (d, self') = pseudos self in (dict_keys d, self'))"

section \<open>Adding nodes\<close>

text \<open>
  The argument of \<^verbatim>\<open>add_nodes\<close> is a single node or a list (or tuple) of nodes.
\<close>

datatype nodes_arg = Single pseudo | Batch "pseudo list"

fun as_list :: "nodes_arg \<Rightarrow> pseudo list" where
  "as_list (Single node) = [node]"
| "as_list (Batch ns) = ns"

text \<open>
  The loop that checks for duplicates. It reads \<^verbatim>\<open>self.elements\<close> at every node and
  fills the local dictionary \<open>staged\<close> (\<^verbatim>\<open>pseudos\<close> in the source).
\<close>

fun check_duplicates ::
  "family \<Rightarrow> pseudo list \<Rightarrow> pseudo_dict \<Rightarrow> (error + pseudo_dict) \<times> family" where
  "check_duplicates self [] staged = (Inr staged, self)"
| "check_duplicates self (p # ps) staged =
     (let (els, self') = elements self in
      if element p \<in> set els
      then (Inl (ValueError (ElementAlreadyPresent (element p))), self')
      else check_duplicates self' ps (AList.update (element p) p staged))"

text \<open>
  \<^verbatim>\<open>super().add_nodes(nodes)\<close> is \<^verbatim>\<open>Group.add_nodes\<close> of \<^verbatim>\<open>aiida.orm\<close>, which is not
  part of this module: the parameter \<open>group_add_nodes\<close> takes the nodes the group holds
  and the nodes to add, and gives the nodes the group holds afterwards, or raises.
\<close>

type_synonym group_add = "pseudo list \<Rightarrow> pseudo list \<Rightarrow> error + pseudo list"

definition add_nodes :: "group_add \<Rightarrow> family \<Rightarrow> nodes_arg \<Rightarrow> (error + unit) \<times> family" where
  "add_nodes group_add_nodes self arg =
     (if \<not> is_stored self then (Inl (ModificationNotAllowed UnstoredGroup), self)
      else
        let ns = as_list arg in
        if list_ex (\<lambda>node. ptype node \<noteq> pseudo_type self) ns
        then (Inl (TypeError (OnlyNodesOfType (pseudo_type self))), self)
        else
          (case check_duplicates self ns [] of
             (Inl e, self1) \<Rightarrow> (Inl e, self1)
           | (Inr staged, self1) \<Rightarrow>
               (let (d, self2) = pseudos self1;
                    self3 = self2\<lparr>pseudos_cache := Some (dict_update d staged)\<rparr>
                in case group_add_nodes (nodes self3) ns of
                     Inl e \<Rightarrow> (Inl e, self3)
                   | Inr ns' \<Rightarrow> (Inr (), self3\<lparr>nodes := ns'\<rparr>))))"

section \<open>Looking a pseudo potential up\<close>

text \<open>
  The query \<^verbatim>\<open>get_pseudo\<close> builds: the group of the family's class with the family's
  primary key, joined with the nodes of class \<^verbatim>\<open>_pseudo_type\<close> whose attribute
  \<^verbatim>\<open>element\<close> is the element asked for.
\<close>

record query =
  q_group_class :: string
  q_group_id :: "nat option"
  q_node_class :: pyclass
  q_element :: "string option"

definition build_query :: "family \<Rightarrow> string option \<Rightarrow> query" where
  "build_query self el =
     \<lparr>q_group_class = class_name self, q_group_id = pk self,
      q_node_class = pseudo_type self, q_element = el\<rparr>"

text \<open>
  \<^verbatim>\<open>QueryBuilder.one\<close> of \<^verbatim>\<open>aiida.orm\<close>, applied to the rows the query matches:
  \<^verbatim>\<open>NotExistent\<close> for no row, \<^verbatim>\<open>MultipleObjectsError\<close> for more than one.
\<close>

fun builder_one :: "pseudo list \<Rightarrow> error + pseudo" where
  "builder_one [] = Inl (NotExistent (Text ''No result was found''))"
| "builder_one [p] = Inr p"
| "builder_one (p # q # rest) = Inl (MultipleObjectsError (Text ''Multiple results were found''))"

text \<open>
  The query engine is the parameter \<open>run_query\<close>: the rows a query matches. Next to its
  result and the family, \<open>get_pseudo\<close> returns the queries it has issued, in order.
\<close>

definition get_pseudo ::
  "(query \<Rightarrow> pseudo list) \<Rightarrow> family \<Rightarrow> string option \<Rightarrow> (error + pseudo) \<times> family \<times> query list" where
  "get_pseudo run_query self el =
     (let (d, self1) = pseudos self in
      case map_of d el of
        Some p \<Rightarrow> (Inr p, self1, [])
      | None \<Rightarrow>
          (let q = build_query self1 el
           in case builder_one (run_query q) of
                Inl (MultipleObjectsError m) \<Rightarrow>
                  (Inl (RuntimeError (MultiplePseudos (label self1) el)), self1, [q])
              | Inl (NotExistent m) \<Rightarrow>
                  (Inl (ValueError (NoPseudoForElement (label self1) el)), self1, [q])
              | Inl e \<Rightarrow> (Inl e, self1, [q])
              | Inr p \<Rightarrow>
                  (let (d2, self2) = pseudos self1
                   in (Inr p, self2\<lparr>pseudos_cache := Some (AList.update el p d2)\<rparr>, [q]))))"

section \<open>Parsing a directory\<close>

text \<open>
  What the module asks of the platform: \<^verbatim>\<open>os.path.isdir\<close>, \<^verbatim>\<open>os.listdir\<close>,
  \<^verbatim>\<open>os.path.isfile\<close> and the bytes of a file. File names are strings of 8-bit
  characters; \<open>unicode_word\<close> is the table of the characters beyond ASCII that the
  pattern \<^verbatim>\<open>\w\<close> of Python's \<^verbatim>\<open>re\<close> accepts.
\<close>

record platform =
  isdir :: "string \<Rightarrow> bool"
  listdir :: "string \<Rightarrow> string list"
  isfile :: "string \<Rightarrow> bool"
  read_bytes :: "string \<Rightarrow> string"
  unicode_word :: "char \<Rightarrow> bool"

text \<open>The constructor \<^verbatim>\<open>cls._pseudo_type(handle, filename=filename)\<close>: bytes, file name.\<close>

type_synonym constructor = "string \<Rightarrow> string \<Rightarrow> error + pseudo"

text \<open>
  The assignment \<^verbatim>\<open>pseudo.element = value\<close> goes through the property setter of the
  node class, which is defined with \<^verbatim>\<open>PseudoPotentialData\<close> and not in this module. It
  is a parameter like the constructor: node and value in, the node after the assignment
  out, or the exception the setter raises.
\<close>

type_synonym setter = "pseudo \<Rightarrow> string \<Rightarrow> error + pseudo"

definition path_join :: "string \<Rightarrow> string \<Rightarrow> string" where
  \<comment> \<open>\<^verbatim>\<open>os.path.join\<close> of \<^verbatim>\<open>posixpath\<close>, for two components\<close>
  "path_join a b =
     (if b \<noteq> [] \<and> hd b = CHR ''/'' then b
      else if a = [] \<or> last a = CHR ''/'' then a @ b
      else a @ ''/'' @ b)"

definition ascii_letter :: "char \<Rightarrow> bool" where
  \<comment> \<open>\<^verbatim>\<open>[A-Za-z]\<close>\<close>
  "ascii_letter c \<longleftrightarrow>
     (let n = (of_char c :: nat) in (65 \<le> n \<and> n \<le> 90) \<or> (97 \<le> n \<and> n \<le> 122))"

definition ascii_digit :: "char \<Rightarrow> bool" where
  "ascii_digit c \<longleftrightarrow> (let n = (of_char c :: nat) in 48 \<le> n \<and> n \<le> 57)"

definition re_word :: "platform \<Rightarrow> char \<Rightarrow> bool" where
  \<comment> \<open>\<^verbatim>\<open>\w\<close>: alphanumeric or the underscore\<close>
  "re_word os c \<longleftrightarrow>
     (if (of_char c :: nat) < 128 then ascii_letter c \<or> ascii_digit c \<or> c = CHR ''_''
      else unicode_word os c)"

text \<open>
  \<^verbatim>\<open>re.search(r'^([A-Za-z]{1,2})\.\w+', filename)\<close> and \<^verbatim>\<open>match.group(1)\<close>. The
  pattern is anchored at the start of the name; \<open>letters_then_ext os k s\<close> is the attempt
  with \<open>k\<close> letters in the group, which then needs a dot and one character of \<^verbatim>\<open>\w\<close>
  (the rest of \<^verbatim>\<open>\w+\<close> and of the name is free). The repetition \<^verbatim>\<open>{1,2}\<close> is greedy:
  two letters are tried before one.
\<close>

definition letters_then_ext :: "platform \<Rightarrow> nat \<Rightarrow> string \<Rightarrow> bool" where
  "letters_then_ext os k s \<longleftrightarrow>
     k \<le> length s \<and> list_all ascii_letter (take k s) \<and>
     (case drop k s of
        dot # w # rest \<Rightarrow> dot = CHR ''.'' \<and> re_word os w
      | _ \<Rightarrow> False)"

definition match_element :: "platform \<Rightarrow> string \<Rightarrow> string option" where
  "match_element os s =
     (if letters_then_ext os 2 s then Some (take 2 s)
      else if letters_then_ext os 1 s then Some (take 1 s)
      else None)"

text \<open>
  A class of families: its name and its attribute \<^verbatim>\<open>_pseudo_type\<close>.
\<close>

record family_class =
  fc_name :: string
  fc_pseudo_type :: pyclass

text \<open>
  The body of the loop over \<^verbatim>\<open>os.listdir(dirpath)\<close>, up to the node it appends. Only
  a \<^verbatim>\<open>ParsingError\<close> of the constructor is caught and wrapped; any other exception
  leaves the method as it is, and so does one raised by the assignment
  \<^verbatim>\<open>pseudo.element = match.group(1)\<close>, which is outside the \<^verbatim>\<open>try\<close>.
\<close>

definition parse_entry ::
  "family_class \<Rightarrow> platform \<Rightarrow> constructor \<Rightarrow> setter \<Rightarrow> string \<Rightarrow> string
     \<Rightarrow> error + pseudo" where
  "parse_entry cls os construct set_element dirpath name =
     (let filepath = path_join dirpath name in
      if \<not> isfile os filepath then Inl (ValueError (NotAFile dirpath))
      else
        (case construct (read_bytes os filepath) name of
           Inl (ParsingError m) \<Rightarrow> Inl (ParsingError (FailedToParse filepath m))
         | Inl e \<Rightarrow> Inl e
         | Inr p \<Rightarrow>
             (if element p = None then
                (case match_element os name of
                   None \<Rightarrow> Inl (ParsingError (NoElementInFilename (fc_pseudo_type cls) name))
                 | Some el \<Rightarrow> set_element p el)
              else Inr p)))"

text \<open>The loop, with the list \<^verbatim>\<open>pseudos\<close> built so far.\<close>

fun parse_files ::
  "family_class \<Rightarrow> platform \<Rightarrow> constructor \<Rightarrow> setter \<Rightarrow> string \<Rightarrow> string list
     \<Rightarrow> pseudo list \<Rightarrow> error + pseudo list" where
  "parse_files cls os construct set_element dirpath [] acc = Inr acc"
| "parse_files cls os construct set_element dirpath (name # rest) acc =
     (case parse_entry cls os construct set_element dirpath name of
        Inl e \<Rightarrow> Inl e
      | Inr p \<Rightarrow> parse_files cls os construct set_element dirpath rest (acc @ [p]))"

definition parse_pseudos_from_directory ::
  "family_class \<Rightarrow> platform \<Rightarrow> constructor \<Rightarrow> setter \<Rightarrow> string \<Rightarrow> error + pseudo list" where
  "parse_pseudos_from_directory cls os construct set_element dirpath =
     (if \<not> isdir os dirpath then Inl (ValueError (NotADirectory dirpath))
      else
        (case parse_files cls os construct set_element dirpath (listdir os dirpath) [] of
           Inl e \<Rightarrow> Inl e
         | Inr ps \<Rightarrow>
             (if ps = [] then Inl (ValueError (NoPseudosParsed dirpath))
              else
                let els = set (map element ps) in
                if length ps \<noteq> card els then Inl (ValueError (DuplicateElements dirpath))
                else Inr ps)))"

section \<open>Creating a family from a folder\<close>

text \<open>
  The database as \<^verbatim>\<open>create_from_folder\<close> uses it: the stored groups of the class,
  found by their label, which the database keeps unique, and the next primary key.
  \<^verbatim>\<open>cls.objects.get(label=label)\<close> raises \<^verbatim>\<open>NotExistent\<close> when no group has the label.
\<close>

record database =
  groups :: "string \<rightharpoonup> family"
  next_pk :: nat

definition objects_get :: "database \<Rightarrow> string \<Rightarrow> error + family" where
  "objects_get db lbl =
     (case groups db lbl of
        None \<Rightarrow> Inl (NotExistent (Text ''No result was found''))
      | Some g \<Rightarrow> Inr g)"

definition init :: "family_class \<Rightarrow> string \<Rightarrow> string option \<Rightarrow> error + family" where
  \<comment> \<open>\<^verbatim>\<open>__init__\<close>, called as \<^verbatim>\<open>cls(label=label, description=description)\<close>\<close>
  "init cls lbl descr =
     (if \<not> issubclass (fc_pseudo_type cls) PseudoPotentialData
      then Inl (RuntimeError NotASubclass)
      else Inr \<lparr>class_name = fc_name cls, pseudo_type = fc_pseudo_type cls, label = lbl,
                description = descr, pk = None, pseudos_cache = None, nodes = []\<rparr>)"

definition store_family :: "database \<Rightarrow> family \<Rightarrow> family \<times> database" where
  \<comment> \<open>\<^verbatim>\<open>family.store()\<close>: the group gets its primary key and is in the database\<close>
  "store_family db self =
     (let self' = self\<lparr>pk := Some (next_pk db)\<rparr>
      in (self', db\<lparr>groups := (groups db)(label self \<mapsto> self'), next_pk := Suc (next_pk db)\<rparr>))"

definition store_node :: "pseudo \<Rightarrow> pseudo" where
  \<comment> \<open>\<^verbatim>\<open>pseudo.store()\<close>, which returns the node\<close>
  "store_node p = p\<lparr>node_stored := True\<rparr>"

text \<open>
  \<^verbatim>\<open>type_check(description, str, allow_none=True)\<close> holds of every
  \<open>string option\<close>. The family is constructed only in the handler of \<^verbatim>\<open>NotExistent\<close>;
  when the lookup returns a group, the \<^verbatim>\<open>else\<close> branch raises \<^verbatim>\<open>ValueError\<close>.
\<close>

definition create_from_folder ::
  "family_class \<Rightarrow> platform \<Rightarrow> constructor \<Rightarrow> setter \<Rightarrow> group_add \<Rightarrow> database
     \<Rightarrow> string \<Rightarrow> string \<Rightarrow> string option \<Rightarrow> (error + family) \<times> database" where
  "create_from_folder cls os construct set_element group_add_nodes db dirpath lbl descr =
     (case objects_get db lbl of
        Inr existing \<Rightarrow> (Inl (ValueError (AlreadyExists (fc_name cls) lbl)), db)
      | Inl (NotExistent m) \<Rightarrow>
          (case init cls lbl descr of
             Inl e \<Rightarrow> (Inl e, db)
           | Inr family \<Rightarrow>
               (case parse_pseudos_from_directory cls os construct set_element dirpath of
                  Inl e \<Rightarrow> (Inl e, db)
                | Inr ps \<Rightarrow>
                    (let (family1, db1) = store_family db family;
                         (r, family2) = add_nodes group_add_nodes family1 (Batch (map store_node ps));
                         db2 = db1\<lparr>groups := (groups db1)(lbl \<mapsto> family2)\<rparr>
                     in case r of
                          Inl e \<Rightarrow> (Inl e, db2)
                        | Inr u \<Rightarrow> (Inr family2, db2))))
      | Inl e \<Rightarrow> (Inl e, db))"

section \<open>Example data\<close>

definition UpfData :: pyclass where
  "UpfData = \<lparr>cname = ''UpfData'', ancestors = [''PseudoPotentialData'', ''Data'', ''Node'']\<rparr>"

definition mk_pseudo :: "pyclass \<Rightarrow> string \<Rightarrow> string \<Rightarrow> pseudo" where
  "mk_pseudo c el name =
     \<lparr>ptype = c, element = Some el, filename = name, content = [], node_stored = True\<rparr>"

definition mk_family :: "nat option \<Rightarrow> pseudo_dict option \<Rightarrow> pseudo list \<Rightarrow> family" where
  "mk_family key cache ns =
     \<lparr>class_name = ''PseudoPotentialFamily'', pseudo_type = PseudoPotentialData,
      label = ''SSSP'', description = None, pk = key, pseudos_cache = cache, nodes = ns\<rparr>"

definition cu :: pseudo where
  "cu = mk_pseudo PseudoPotentialData ''Cu'' ''Cu.upf''"

definition db_none :: "query \<Rightarrow> pseudo list" where
  \<comment> \<open>a database in which no node matches\<close>
  "db_none q = []"

definition db_one :: "query \<Rightarrow> pseudo list" where
  \<comment> \<open>a database in which group 1 holds one node for copper\<close>
  "db_one q = (if q_group_id q = Some 1 \<and> q_element q = Some ''Cu'' then [cu] else [])"

definition db_two :: "query \<Rightarrow> pseudo list" where
  \<comment> \<open>a database in which group 1 holds two nodes for copper\<close>
  "db_two q =
     (if q_group_id q = Some 1 \<and> q_element q = Some ''Cu''
      then [cu, mk_pseudo PseudoPotentialData ''Cu'' ''Cu.pz.upf''] else [])"

definition fam_fe_cu :: family where
  \<comment> \<open>\<open>fam_fe\<close> once its dictionary is built and copper has been looked up\<close>
  "fam_fe_cu =
     mk_family (Some 1)
       (Some [(Some ''Fe'', mk_pseudo PseudoPotentialData ''Fe'' ''Fe.pbe.upf''), (Some ''Cu'', cu)])
       [mk_pseudo PseudoPotentialData ''Fe'' ''Fe.pbe.upf'']"

definition os_example :: platform where
  \<comment> \<open>five directories of files; no character beyond ASCII counts as a word character\<close>
  "os_example =
     \<lparr>isdir = (\<lambda>p. p \<in> {''/upf'', ''/mixed'', ''/twice'', ''/odd'', ''/empty''}),
      listdir = (\<lambda>p. if p = ''/upf'' then [''Cu.UPF'']
                      else if p = ''/mixed'' then [''Cu.UPF'', ''copper.upf'']
                      else if p = ''/twice'' then [''Fe.upf'', ''Fe2.upf'']
                      else if p = ''/odd'' then [''Xx.upf'']
                      else []),
      isfile = (\<lambda>p. p \<notin> {''/upf'', ''/mixed'', ''/twice'', ''/odd'', ''/empty''}),
      read_bytes = (\<lambda>p. []),
      unicode_word = (\<lambda>c. False)\<rparr>"

definition unset_node :: "string \<Rightarrow> pseudo" where
  "unset_node name =
     \<lparr>ptype = PseudoPotentialData, element = None, filename = name, content = [],
      node_stored = False\<rparr>"

definition construct_example :: constructor where
  \<comment> \<open>a constructor that reads iron out of \<^verbatim>\<open>Fe2.upf\<close> and leaves every other element unset\<close>
  "construct_example bytes name =
     (if name = ''Fe2.upf'' then Inr ((unset_node name)\<lparr>element := Some ''Fe''\<rparr>)
      else Inr (unset_node name))"

definition element_symbols :: "string list" where
  "element_symbols =
     [''H'', ''He'', ''Li'', ''Be'', ''B'', ''C'', ''N'', ''O'', ''F'', ''Ne'', ''Na'', ''Mg'',
      ''Al'', ''Si'', ''P'', ''S'', ''Cl'', ''Ar'', ''K'', ''Ca'', ''Sc'', ''Ti'', ''V'', ''Cr'',
      ''Mn'', ''Fe'', ''Co'', ''Ni'', ''Cu'', ''Zn'', ''Ga'', ''Ge'', ''As'', ''Se'', ''Br'',
      ''Kr'', ''Rb'', ''Sr'', ''Y'', ''Zr'', ''Nb'', ''Mo'', ''Tc'', ''Ru'', ''Rh'', ''Pd'',
      ''Ag'', ''Cd'', ''In'', ''Sn'', ''Sb'', ''Te'', ''I'', ''Xe'', ''Cs'', ''Ba'', ''La'',
      ''Ce'', ''Pr'', ''Nd'', ''Pm'', ''Sm'', ''Eu'', ''Gd'', ''Tb'', ''Dy'', ''Ho'', ''Er'',
      ''Tm'', ''Yb'', ''Lu'', ''Hf'', ''Ta'', ''W'', ''Re'', ''Os'', ''Ir'', ''Pt'', ''Au'',
      ''Hg'', ''Tl'', ''Pb'', ''Bi'', ''Po'', ''At'', ''Rn'', ''Fr'', ''Ra'', ''Ac'', ''Th'',
      ''Pa'', ''U'', ''Np'', ''Pu'', ''Am'', ''Cm'', ''Bk'', ''Cf'', ''Es'', ''Fm'', ''Md'',
      ''No'', ''Lr'']"

definition setter_example :: setter where
  \<comment> \<open>a setter that assigns the symbol of a chemical element and raises \<^verbatim>\<open>ValueError\<close>
     for any other string\<close>
  "setter_example p value =
     (if value \<in> set element_symbols then Inr (p\<lparr>element := Some value\<rparr>)
      else Inl (ValueError (InvalidElement value)))"

definition cls_example :: family_class where
  "cls_example = \<lparr>fc_name = ''PseudoPotentialFamily'', fc_pseudo_type = PseudoPotentialData\<rparr>"

definition append_nodes :: group_add where
  \<comment> \<open>a base class that accepts every node\<close>
  "append_nodes held new = Inr (held @ new)"

definition fam_fe :: family where
  \<comment> \<open>a stored family that holds one pseudo potential, for iron; \<^verbatim>\<open>_pseudos\<close> not yet built\<close>
  "fam_fe = mk_family (Some 1) None [mk_pseudo PseudoPotentialData ''Fe'' ''Fe.pbe.upf'']"

definition db_sssp :: database where
  \<comment> \<open>a database in which the label \<^verbatim>\<open>SSSP\<close> is taken\<close>
  "db_sssp = \<lparr>groups = [''SSSP'' \<mapsto> fam_fe], next_pk = 2\<rparr>"

section \<open>The lazily built dictionary\<close>

lemma pseudos_idem: "pseudos (snd (pseudos self)) = (fst (pseudos self), snd (pseudos self))"
  by (simp add: pseudos_def Let_def split: option.splits)

lemma snd_elements: "snd (elements self) = snd (pseudos self)"
  by (simp add: elements_def split: prod.splits)

lemma fst_elements: "fst (elements self) = dict_keys (fst (pseudos self))"
  by (simp add: elements_def split: prod.splits)

lemma pseudos_fields:
  "nodes (snd (pseudos self)) = nodes self"
  "pk (snd (pseudos self)) = pk self"
  "label (snd (pseudos self)) = label self"
  "pseudo_type (snd (pseudos self)) = pseudo_type self"
  "class_name (snd (pseudos self)) = class_name self"
  "description (snd (pseudos self)) = description self"
  by (simp_all add: pseudos_def Let_def split: option.splits)

section \<open>Guards of add_nodes\<close>

text \<open>
  C6. A family that is not stored refuses every call of \<^verbatim>\<open>add_nodes\<close> with
  \<^verbatim>\<open>ModificationNotAllowed\<close>, whatever nodes are passed and whatever the base class
  would do, and the family is left as it was.
\<close>

theorem add_nodes_unstored:
  "\<not> is_stored self \<Longrightarrow>
     add_nodes g self arg = (Inl (ModificationNotAllowed UnstoredGroup), self)"
  by (simp add: add_nodes_def)

theorem add_nodes_unstored_witness:
  "\<not> is_stored (mk_family None None []) \<and>
   add_nodes append_nodes (mk_family None None [])
       (Single (mk_pseudo PseudoPotentialData ''Fe'' ''Fe.upf''))
     = (Inl (ModificationNotAllowed UnstoredGroup), mk_family None None [])"
  using add_nodes_unstored [of "mk_family None None []" append_nodes
      "Single (mk_pseudo PseudoPotentialData ''Fe'' ''Fe.upf'')"]
  by (simp add: is_stored_def mk_family_def)

lemma list_ex_wrong_type:
  "node \<in> set ns \<Longrightarrow> ptype node \<noteq> t \<Longrightarrow> list_ex (\<lambda>n. ptype n \<noteq> t) ns"
  by (auto simp: list_ex_iff)

text \<open>
  C5. On a stored family, a node whose type is not exactly \<^verbatim>\<open>_pseudo_type\<close> makes
  \<^verbatim>\<open>add_nodes\<close> raise \<^verbatim>\<open>TypeError\<close>, alone or anywhere in a batch, and the family is
  left as it was. The test is \<^verbatim>\<open>type(node) is not self._pseudo_type\<close>, so an instance
  of a strict subclass, for which \<^verbatim>\<open>isinstance\<close> holds, is refused as well.
\<close>

theorem add_nodes_wrong_type:
  "is_stored self \<Longrightarrow> node \<in> set (as_list arg) \<Longrightarrow> ptype node \<noteq> pseudo_type self \<Longrightarrow>
     add_nodes g self arg = (Inl (TypeError (OnlyNodesOfType (pseudo_type self))), self)"
  by (simp add: add_nodes_def list_ex_wrong_type)

text \<open>
  The node of the witness is a \<^verbatim>\<open>UpfData\<close>, a strict subclass of the accepted
  \<^verbatim>\<open>PseudoPotentialData\<close>.
\<close>

theorem add_nodes_wrong_type_witness:
  "is_stored (mk_family (Some 1) None []) \<and>
   isinstance (mk_pseudo UpfData ''Fe'' ''Fe.upf'') (pseudo_type (mk_family (Some 1) None [])) \<and>
   ptype (mk_pseudo UpfData ''Fe'' ''Fe.upf'') \<noteq> pseudo_type (mk_family (Some 1) None []) \<and>
   add_nodes append_nodes (mk_family (Some 1) None []) (Single (mk_pseudo UpfData ''Fe'' ''Fe.upf''))
     = (Inl (TypeError (OnlyNodesOfType PseudoPotentialData)), mk_family (Some 1) None [])"
proof -
  let ?fam = "mk_family (Some 1) None []"
  let ?node = "mk_pseudo UpfData ''Fe'' ''Fe.upf''"
  have s: "is_stored ?fam" by (simp add: is_stored_def mk_family_def)
  have m: "?node \<in> set (as_list (Single ?node))" by simp
  have t: "ptype ?node \<noteq> pseudo_type ?fam"
    by (simp add: mk_pseudo_def mk_family_def UpfData_def PseudoPotentialData_def)
  have i: "isinstance ?node (pseudo_type ?fam)"
    by (simp add: isinstance_def issubclass_def mk_pseudo_def mk_family_def UpfData_def
        PseudoPotentialData_def)
  from add_nodes_wrong_type [OF s m t, of append_nodes] s t i show ?thesis
    by (simp add: mk_family_def)
qed

text \<open>
  C10. The guards of \<^verbatim>\<open>add_nodes\<close> come in a fixed order. A family that is not stored
  raises \<^verbatim>\<open>ModificationNotAllowed\<close> whatever the types and elements of the nodes. A
  stored family given a batch with a node of the wrong type and a node whose element the
  family already has raises \<^verbatim>\<open>TypeError\<close>; the family comes back as it went in, with
  \<^verbatim>\<open>_pseudos\<close> not even built, so no element was looked up before the type check.
\<close>

theorem add_nodes_guard_order:
  "(\<not> is_stored self \<longrightarrow>
      add_nodes g self arg = (Inl (ModificationNotAllowed UnstoredGroup), self)) \<and>
   (is_stored self \<and> bad \<in> set (as_list arg) \<and> ptype bad \<noteq> pseudo_type self \<and>
    dup \<in> set (as_list arg) \<and> element dup \<in> set (fst (elements self)) \<longrightarrow>
      add_nodes g self arg = (Inl (TypeError (OnlyNodesOfType (pseudo_type self))), self))"
  by (auto simp: add_nodes_def Let_def dest: list_ex_wrong_type)

theorem add_nodes_guard_order_witness:
  "\<not> is_stored (mk_family None None []) \<and>
   add_nodes append_nodes (mk_family None None [])
      (Batch [mk_pseudo UpfData ''O'' ''O.upf'', mk_pseudo PseudoPotentialData ''Fe'' ''Fe.upf''])
     = (Inl (ModificationNotAllowed UnstoredGroup), mk_family None None []) \<and>
   is_stored fam_fe \<and>
   ptype (mk_pseudo UpfData ''O'' ''O.upf'') \<noteq> pseudo_type fam_fe \<and>
   element (mk_pseudo PseudoPotentialData ''Fe'' ''Fe.upf'') \<in> set (fst (elements fam_fe)) \<and>
   add_nodes append_nodes fam_fe
      (Batch [mk_pseudo PseudoPotentialData ''Fe'' ''Fe.upf'', mk_pseudo UpfData ''O'' ''O.upf''])
     = (Inl (TypeError (OnlyNodesOfType PseudoPotentialData)), fam_fe)"
proof -
  let ?o = "mk_pseudo UpfData ''O'' ''O.upf''"
  let ?fe = "mk_pseudo PseudoPotentialData ''Fe'' ''Fe.upf''"
  have u: "\<not> is_stored (mk_family None None [])" by (simp add: is_stored_def mk_family_def)
  have s: "is_stored fam_fe" by (simp add: is_stored_def fam_fe_def mk_family_def)
  have t: "ptype ?o \<noteq> pseudo_type fam_fe"
    by (simp add: mk_pseudo_def fam_fe_def mk_family_def UpfData_def PseudoPotentialData_def)
  have e: "element ?fe \<in> set (fst (elements fam_fe))"
    by (simp add: elements_def pseudos_def Let_def dict_keys_def fam_fe_def mk_family_def
        mk_pseudo_def)
  have m: "?o \<in> set (as_list (Batch [?fe, ?o]))" "?fe \<in> set (as_list (Batch [?fe, ?o]))"
    by simp_all
  from add_nodes_guard_order [where self = "mk_family None None []" and g = append_nodes
      and arg = "Batch [?o, ?fe]"] u
  have 1: "add_nodes append_nodes (mk_family None None []) (Batch [?o, ?fe])
     = (Inl (ModificationNotAllowed UnstoredGroup), mk_family None None [])"
    by blast
  from add_nodes_guard_order [where self = fam_fe and bad = ?o and dup = ?fe
      and arg = "Batch [?fe, ?o]" and g = append_nodes] s t e m
  have 2: "add_nodes append_nodes fam_fe (Batch [?fe, ?o])
     = (Inl (TypeError (OnlyNodesOfType (pseudo_type fam_fe))), fam_fe)"
    by blast
  have p: "pseudo_type fam_fe = PseudoPotentialData" by (simp add: fam_fe_def mk_family_def)
  from u 1 s t e 2 p show ?thesis by simp
qed

section \<open>Elements that are already present\<close>

lemma check_duplicates_present:
  assumes "element p \<in> set (fst (elements self))"
  shows "check_duplicates self (p # ps) staged
       = (Inl (ValueError (ElementAlreadyPresent (element p))), snd (pseudos self))"
proof (cases "elements self")
  case (Pair els self')
  then have "snd (pseudos self) = self'"
    using snd_elements [of self] by simp
  with Pair assms show ?thesis by simp
qed

text \<open>
  C2, as amended. On a stored family, one node of exactly the accepted type whose element
  is already a key of the family's dictionary makes \<^verbatim>\<open>add_nodes\<close> raise
  \<^verbatim>\<open>ValueError\<close>. The family afterwards is the family with \<^verbatim>\<open>self.pseudos\<close> read
  once: the dictionary read through the property and the nodes of the group are what
  they were. (The claim as written leaves the type of the node open.)
\<close>

theorem add_nodes_existing_element:
  assumes "is_stored self" and "as_list arg = [node]"
    and "ptype node = pseudo_type self"
    and "element node \<in> set (fst (elements self))"
  shows "add_nodes g self arg
           = (Inl (ValueError (ElementAlreadyPresent (element node))), snd (pseudos self)) \<and>
         fst (pseudos (snd (add_nodes g self arg))) = fst (pseudos self) \<and>
         nodes (snd (add_nodes g self arg)) = nodes self"
proof -
  have r: "add_nodes g self arg
           = (Inl (ValueError (ElementAlreadyPresent (element node))), snd (pseudos self))"
    using assms
    by (simp add: add_nodes_def Let_def list_ex_iff check_duplicates_present
        del: check_duplicates.simps)
  show ?thesis
    by (simp add: r pseudos_idem pseudos_fields)
qed

theorem add_nodes_existing_element_witness:
  "is_stored fam_fe \<and>
   ptype (mk_pseudo PseudoPotentialData ''Fe'' ''Fe.upf'') = pseudo_type fam_fe \<and>
   element (mk_pseudo PseudoPotentialData ''Fe'' ''Fe.upf'') \<in> set (fst (elements fam_fe)) \<and>
   fst (add_nodes append_nodes fam_fe (Single (mk_pseudo PseudoPotentialData ''Fe'' ''Fe.upf'')))
     = Inl (ValueError (ElementAlreadyPresent (Some ''Fe''))) \<and>
   nodes (snd (add_nodes append_nodes fam_fe (Single (mk_pseudo PseudoPotentialData ''Fe'' ''Fe.upf''))))
     = [mk_pseudo PseudoPotentialData ''Fe'' ''Fe.pbe.upf'']"
proof -
  let ?node = "mk_pseudo PseudoPotentialData ''Fe'' ''Fe.upf''"
  have s: "is_stored fam_fe" by (simp add: is_stored_def fam_fe_def mk_family_def)
  have a: "as_list (Single ?node) = [?node]" by simp
  have t: "ptype ?node = pseudo_type fam_fe"
    by (simp add: mk_pseudo_def fam_fe_def mk_family_def)
  have e: "element ?node \<in> set (fst (elements fam_fe))"
    by (simp add: elements_def pseudos_def Let_def dict_keys_def fam_fe_def mk_family_def
        mk_pseudo_def)
  have el: "element ?node = Some ''Fe''" by (simp add: mk_pseudo_def)
  have n: "nodes fam_fe = [mk_pseudo PseudoPotentialData ''Fe'' ''Fe.pbe.upf'']"
    by (simp add: fam_fe_def mk_family_def)
  from add_nodes_existing_element [OF s a t e, of append_nodes] s t e el n show ?thesis
    by (simp add: pseudos_fields)
qed

text \<open>
  The claim C2 as written fails at a node whose element the family has and whose type is
  not the accepted one: the type check comes first, and the call raises \<^verbatim>\<open>TypeError\<close>,
  not \<^verbatim>\<open>ValueError\<close>.
\<close>

theorem add_nodes_existing_element_counterexample:
  "is_stored fam_fe \<and>
   element (mk_pseudo UpfData ''Fe'' ''Fe.upf'') \<in> set (fst (elements fam_fe)) \<and>
   add_nodes append_nodes fam_fe (Single (mk_pseudo UpfData ''Fe'' ''Fe.upf''))
     = (Inl (TypeError (OnlyNodesOfType PseudoPotentialData)), fam_fe) \<and>
   \<not> is_ValueError (TypeError (OnlyNodesOfType PseudoPotentialData))"
  by (simp add: add_nodes_def Let_def is_stored_def elements_def pseudos_def dict_keys_def
      fam_fe_def mk_family_def mk_pseudo_def UpfData_def PseudoPotentialData_def)

text \<open>
  What the loop does catch, in a batch of any length: a node whose element is a key of
  the family's dictionary. The call raises \<^verbatim>\<open>ValueError\<close> before the dictionary or the
  group is written.
\<close>

lemma elements_after_read:
  "fst (elements (snd (elements self))) = fst (elements self)"
  "snd (pseudos (snd (elements self))) = snd (pseudos self)"
  by (simp_all add: snd_elements fst_elements pseudos_idem)

lemma check_duplicates_some_present:
  "\<exists>p\<in>set ps. element p \<in> set (fst (elements self)) \<Longrightarrow>
     \<exists>p\<in>set ps. check_duplicates self ps staged
        = (Inl (ValueError (ElementAlreadyPresent (element p))), snd (pseudos self))"
proof (induction ps arbitrary: self staged)
  case Nil
  then show ?case by simp
next
  case (Cons a ps)
  show ?case
  proof (cases "element a \<in> set (fst (elements self))")
    case True
    then show ?thesis using check_duplicates_present [of a self ps staged] by auto
  next
    case False
    with Cons.prems have "\<exists>p\<in>set ps. element p \<in> set (fst (elements (snd (elements self))))"
      by (auto simp: elements_after_read)
    from Cons.IH [OF this, of "AList.update (element a) a staged"]
    obtain p where p: "p \<in> set ps"
      and c: "check_duplicates (snd (elements self)) ps (AList.update (element a) a staged)
        = (Inl (ValueError (ElementAlreadyPresent (element p))), snd (pseudos self))"
      by (auto simp: elements_after_read)
    have "check_duplicates self (a # ps) staged
        = check_duplicates (snd (elements self)) ps (AList.update (element a) a staged)"
      using False by (cases "elements self") simp
    with p c show ?thesis by auto
  qed
qed

lemma add_nodes_present_in_batch:
  assumes "is_stored self"
    and "\<forall>n\<in>set (as_list arg). ptype n = pseudo_type self"
    and "\<exists>n\<in>set (as_list arg). element n \<in> set (fst (elements self))"
  shows "\<exists>n\<in>set (as_list arg).
           add_nodes g self arg
             = (Inl (ValueError (ElementAlreadyPresent (element n))), snd (pseudos self))"
proof -
  from check_duplicates_some_present [OF assms(3), of "[]"]
  obtain n where n: "n \<in> set (as_list arg)"
    and c: "check_duplicates self (as_list arg) []
        = (Inl (ValueError (ElementAlreadyPresent (element n))), snd (pseudos self))"
    by blast
  have "add_nodes g self arg
      = (Inl (ValueError (ElementAlreadyPresent (element n))), snd (pseudos self))"
    using assms(1,2) by (simp add: add_nodes_def Let_def list_ex_iff c)
  with n show ?thesis by blast
qed

text \<open>
  C1. The loop of \<^verbatim>\<open>add_nodes\<close> tests each element against \<^verbatim>\<open>self.elements\<close> only;
  the local dictionary is written and never read. Two nodes for iron in one batch, on a
  stored family that holds nothing, therefore pass: the call returns, the group holds
  both nodes, and the dictionary maps iron to the second.
\<close>

theorem add_nodes_batch_duplicate_accepted:
  "add_nodes append_nodes (mk_family (Some 1) None [])
       (Batch [mk_pseudo PseudoPotentialData ''Fe'' ''Fe.a.upf'',
               mk_pseudo PseudoPotentialData ''Fe'' ''Fe.b.upf''])
     = (Inr (),
        mk_family (Some 1)
          (Some [(Some ''Fe'', mk_pseudo PseudoPotentialData ''Fe'' ''Fe.b.upf'')])
          [mk_pseudo PseudoPotentialData ''Fe'' ''Fe.a.upf'',
           mk_pseudo PseudoPotentialData ''Fe'' ''Fe.b.upf''])"
  by (simp add: add_nodes_def Let_def is_stored_def elements_def pseudos_def dict_keys_def
      dict_update_def append_nodes_def mk_family_def mk_pseudo_def)

section \<open>Looking up by element\<close>

lemma missing_key: "el \<notin> set (fst (elements self)) \<Longrightarrow> map_of (fst (pseudos self)) el = None"
  by (simp add: fst_elements dict_keys_def map_of_eq_None_iff)

lemma builder_one_many: "1 < length rows \<Longrightarrow> \<exists>m. builder_one rows = Inl (MultipleObjectsError m)"
  by (cases rows rule: builder_one.cases) simp_all

lemma builder_one_Inr: "builder_one rows = Inr p \<Longrightarrow> rows = [p]"
  by (cases rows rule: builder_one.cases) simp_all

lemma get_pseudo_miss:
  assumes "el \<notin> set (fst (elements self))"
  shows "get_pseudo run_query self el =
     (case builder_one (run_query (build_query self el)) of
        Inl (MultipleObjectsError m) \<Rightarrow>
          (Inl (RuntimeError (MultiplePseudos (label self) el)), snd (pseudos self),
           [build_query self el])
      | Inl (NotExistent m) \<Rightarrow>
          (Inl (ValueError (NoPseudoForElement (label self) el)), snd (pseudos self),
           [build_query self el])
      | Inl e \<Rightarrow> (Inl e, snd (pseudos self), [build_query self el])
      | Inr p \<Rightarrow>
          (Inr p,
           (snd (pseudos self))\<lparr>pseudos_cache := Some (AList.update el p (fst (pseudos self)))\<rparr>,
           [build_query self el]))"
proof -
  obtain d self1 where p: "pseudos self = (d, self1)" by (cases "pseudos self")
  have i: "pseudos self1 = (d, self1)" using pseudos_idem [of self] p by simp
  have q: "build_query self1 el = build_query self el"
    using pseudos_fields [of self] p by (simp add: build_query_def)
  have l: "label self1 = label self" using pseudos_fields [of self] p by simp
  have m: "map_of d el = None" using missing_key [OF assms] p by simp
  show ?thesis
    by (simp add: get_pseudo_def p i q l m Let_def split: sum.splits error.splits)
qed

text \<open>
  C3. For an element that is not a key of the dictionary, \<^verbatim>\<open>get_pseudo\<close> issues one
  query. Its group is this family: the class is the family's class and the id is the
  family's primary key. Its nodes are those of the accepted node class whose element is
  the element asked for. No row: \<^verbatim>\<open>ValueError\<close>. One row: the node is returned and is now in the
  dictionary under the element. More than one row: \<^verbatim>\<open>RuntimeError\<close>, which is not a
  \<^verbatim>\<open>ValueError\<close>.
\<close>

theorem get_pseudo_index_miss:
  assumes "el \<notin> set (fst (elements self))"
  shows "snd (snd (get_pseudo run_query self el)) = [build_query self el] \<and>
     q_group_class (build_query self el) = class_name self \<and>
     q_group_id (build_query self el) = pk self \<and>
     q_node_class (build_query self el) = pseudo_type self \<and>
     q_element (build_query self el) = el \<and>
     (run_query (build_query self el) = [] \<longrightarrow>
        fst (get_pseudo run_query self el)
          = Inl (ValueError (NoPseudoForElement (label self) el))) \<and>
     (\<forall>p. run_query (build_query self el) = [p] \<longrightarrow>
        fst (get_pseudo run_query self el) = Inr p \<and>
        map_of (fst (pseudos (fst (snd (get_pseudo run_query self el))))) el = Some p) \<and>
     (1 < length (run_query (build_query self el)) \<longrightarrow>
        fst (get_pseudo run_query self el)
          = Inl (RuntimeError (MultiplePseudos (label self) el)) \<and>
        \<not> is_ValueError (RuntimeError (MultiplePseudos (label self) el)))"
proof (intro conjI impI allI)
  show "snd (snd (get_pseudo run_query self el)) = [build_query self el]"
    by (simp add: get_pseudo_miss [OF assms] split: sum.splits error.splits)
next
  show "q_group_class (build_query self el) = class_name self"
    by (simp add: build_query_def)
next
  show "q_group_id (build_query self el) = pk self"
    by (simp add: build_query_def)
next
  show "q_node_class (build_query self el) = pseudo_type self"
    by (simp add: build_query_def)
next
  show "q_element (build_query self el) = el"
    by (simp add: build_query_def)
next
  assume "run_query (build_query self el) = []"
  then show "fst (get_pseudo run_query self el)
      = Inl (ValueError (NoPseudoForElement (label self) el))"
    by (simp add: get_pseudo_miss [OF assms])
next
  fix p assume one: "run_query (build_query self el) = [p]"
  then show "fst (get_pseudo run_query self el) = Inr p"
    by (simp add: get_pseudo_miss [OF assms])
  from one show "map_of (fst (pseudos (fst (snd (get_pseudo run_query self el))))) el = Some p"
    by (simp add: get_pseudo_miss [OF assms] pseudos_def update_conv')
next
  assume "1 < length (run_query (build_query self el))"
  then obtain m where "builder_one (run_query (build_query self el)) = Inl (MultipleObjectsError m)"
    using builder_one_many by blast
  then show "fst (get_pseudo run_query self el)
      = Inl (RuntimeError (MultiplePseudos (label self) el))"
    by (simp add: get_pseudo_miss [OF assms])
next
  show "\<not> is_ValueError (RuntimeError (MultiplePseudos (label self) el))" by simp
qed

text \<open>
  C4. When \<^verbatim>\<open>get_pseudo\<close> has returned a node for an element that was not in the
  dictionary (so it came from the query), the next call for that element on the family as
  the first call left it returns the same node, leaves the family as it is and issues no
  query, whatever the query engine would answer.
\<close>

theorem get_pseudo_second_call:
  assumes "el \<notin> set (fst (elements self))"
    and "get_pseudo run_query self el = (Inr p, self', qs)"
  shows "qs = [build_query self el] \<and> get_pseudo run_query' self' el = (Inr p, self', [])"
proof -
  let ?d = "AList.update el p (fst (pseudos self))"
  from assms(2) have "self' = (snd (pseudos self))\<lparr>pseudos_cache := Some ?d\<rparr>
      \<and> qs = [build_query self el]"
    by (simp add: get_pseudo_miss [OF assms(1)] split: sum.splits error.splits)
  then have s: "self' = (snd (pseudos self))\<lparr>pseudos_cache := Some ?d\<rparr>"
    and q: "qs = [build_query self el]" by simp_all
  have "pseudos self' = (?d, self')" by (simp add: s pseudos_def)
  moreover have "map_of ?d el = Some p" by (simp add: update_conv')
  ultimately have "get_pseudo run_query' self' el = (Inr p, self', [])"
    by (simp add: get_pseudo_def)
  with q show ?thesis by simp
qed


lemma fam_fe_no_copper: "Some ''Cu'' \<notin> set (fst (elements fam_fe))"
  by (simp add: elements_def pseudos_def Let_def dict_keys_def fam_fe_def mk_family_def
      mk_pseudo_def)

lemma fam_fe_query:
  "q_group_id (build_query fam_fe (Some ''Cu'')) = Some 1"
  "q_element (build_query fam_fe (Some ''Cu'')) = Some ''Cu''"
  by (simp_all add: build_query_def fam_fe_def mk_family_def)

theorem get_pseudo_index_miss_witness:
  "Some ''Cu'' \<notin> set (fst (elements fam_fe)) \<and>
   snd (snd (get_pseudo db_one fam_fe (Some ''Cu'')))
     = [\<lparr>q_group_class = ''PseudoPotentialFamily'', q_group_id = Some 1,
         q_node_class = PseudoPotentialData, q_element = Some ''Cu''\<rparr>] \<and>
   q_group_id (build_query fam_fe (Some ''Cu'')) = pk fam_fe \<and>
   q_element (build_query fam_fe (Some ''Cu'')) = Some ''Cu'' \<and>
   fst (get_pseudo db_none fam_fe (Some ''Cu''))
     = Inl (ValueError (NoPseudoForElement ''SSSP'' (Some ''Cu''))) \<and>
   fst (get_pseudo db_one fam_fe (Some ''Cu'')) = Inr cu \<and>
   map_of (fst (pseudos (fst (snd (get_pseudo db_one fam_fe (Some ''Cu'')))))) (Some ''Cu'')
     = Some cu \<and>
   fst (get_pseudo db_two fam_fe (Some ''Cu''))
     = Inl (RuntimeError (MultiplePseudos ''SSSP'' (Some ''Cu'')))"
proof -
  note h = fam_fe_no_copper
  have l: "label fam_fe = ''SSSP''" by (simp add: fam_fe_def mk_family_def)
  have 0: "db_none (build_query fam_fe (Some ''Cu'')) = []" by (simp add: db_none_def)
  have 1: "db_one (build_query fam_fe (Some ''Cu'')) = [cu]"
    by (simp add: db_one_def fam_fe_query)
  have 2: "1 < length (db_two (build_query fam_fe (Some ''Cu'')))"
    by (simp add: db_two_def fam_fe_query)
  from get_pseudo_index_miss [OF h, of db_none] 0 l
  have a: "fst (get_pseudo db_none fam_fe (Some ''Cu''))
     = Inl (ValueError (NoPseudoForElement ''SSSP'' (Some ''Cu'')))"
    by simp
  have qv: "build_query fam_fe (Some ''Cu'')
      = \<lparr>q_group_class = ''PseudoPotentialFamily'', q_group_id = Some 1,
         q_node_class = PseudoPotentialData, q_element = Some ''Cu''\<rparr>"
    by (simp add: build_query_def fam_fe_def mk_family_def)
  from get_pseudo_index_miss [OF h, of db_one] 1
  have b: "snd (snd (get_pseudo db_one fam_fe (Some ''Cu''))) = [build_query fam_fe (Some ''Cu'')] \<and>
    q_group_id (build_query fam_fe (Some ''Cu'')) = pk fam_fe \<and>
    q_element (build_query fam_fe (Some ''Cu'')) = Some ''Cu'' \<and>
    fst (get_pseudo db_one fam_fe (Some ''Cu'')) = Inr cu \<and>
    map_of (fst (pseudos (fst (snd (get_pseudo db_one fam_fe (Some ''Cu'')))))) (Some ''Cu'')
     = Some cu"
    by simp
  from get_pseudo_index_miss [OF h, of db_two] 2 l
  have c: "fst (get_pseudo db_two fam_fe (Some ''Cu''))
     = Inl (RuntimeError (MultiplePseudos ''SSSP'' (Some ''Cu'')))"
    by simp
  from h a b c qv show ?thesis by simp
qed

lemma get_pseudo_copper_first:
  "get_pseudo db_one fam_fe (Some ''Cu'') = (Inr cu, fam_fe_cu, [build_query fam_fe (Some ''Cu'')])"
  by (simp add: get_pseudo_def pseudos_def Let_def db_one_def build_query_def fam_fe_def
      fam_fe_cu_def mk_family_def mk_pseudo_def)

text \<open>
  In the witness the second call runs against a database that has become empty: the
  node still comes back, from the dictionary.
\<close>

theorem get_pseudo_second_call_witness:
  "Some ''Cu'' \<notin> set (fst (elements fam_fe)) \<and>
   get_pseudo db_one fam_fe (Some ''Cu'') = (Inr cu, fam_fe_cu, [build_query fam_fe (Some ''Cu'')]) \<and>
   get_pseudo db_none fam_fe_cu (Some ''Cu'') = (Inr cu, fam_fe_cu, [])"
  using get_pseudo_second_call [OF fam_fe_no_copper get_pseudo_copper_first, of db_none]
    fam_fe_no_copper get_pseudo_copper_first
  by simp

section \<open>Parsing a directory: the element from the file name, the checks at the end\<close>

subsection \<open>The loop\<close>

lemma parse_files_length:
  "parse_files cls os construct set_element dirpath names acc = Inr ps \<Longrightarrow>
     length ps = length acc + length names \<and> take (length acc) ps = acc"
proof (induction names arbitrary: acc)
  case Nil
  then show ?case by simp
next
  case (Cons name rest)
  then obtain p where p: "parse_entry cls os construct set_element dirpath name = Inr p"
    and r: "parse_files cls os construct set_element dirpath rest (acc @ [p]) = Inr ps"
    by (auto split: sum.splits)
  from Cons.IH [OF r] have l: "length ps = length (acc @ [p]) + length rest"
    and t: "take (length (acc @ [p])) ps = acc @ [p]" by simp_all
  from t have "take (length acc) (take (length (acc @ [p])) ps) = take (length acc) (acc @ [p])"
    by simp
  then have "take (length acc) ps = acc" by (simp add: min_def)
  with l show ?case by simp
qed


subsection \<open>The pattern for file names\<close>








text \<open>
  C7. Once the loop has gone through the whole listing, one node per entry, the method
  raises \<^verbatim>\<open>ValueError\<close> when the list of nodes is empty, raises \<^verbatim>\<open>ValueError\<close> when
  the number of nodes differs from the number of distinct elements, and returns the list
  otherwise. The two numbers differ exactly when some element occurs more than once.
\<close>

theorem parse_post_validation:
  assumes "isdir os dirpath"
    and "parse_files cls os construct set_element dirpath (listdir os dirpath) [] = Inr ps"
  shows "length ps = length (listdir os dirpath) \<and>
         parse_pseudos_from_directory cls os construct set_element dirpath =
           (if ps = [] then Inl (ValueError (NoPseudosParsed dirpath))
            else if length ps \<noteq> card (set (map element ps))
              then Inl (ValueError (DuplicateElements dirpath))
            else Inr ps) \<and>
         (length ps \<noteq> card (set (map element ps)) \<longleftrightarrow> \<not> distinct (map element ps))"
proof -
  have "length ps = length (listdir os dirpath)"
    using parse_files_length [OF assms(2)] by simp
  moreover have "parse_pseudos_from_directory cls os construct set_element dirpath =
           (if ps = [] then Inl (ValueError (NoPseudosParsed dirpath))
            else if length ps \<noteq> card (set (map element ps))
              then Inl (ValueError (DuplicateElements dirpath))
            else Inr ps)"
    using assms by (simp add: parse_pseudos_from_directory_def Let_def)
  moreover have "length ps \<noteq> card (set (map element ps)) \<longleftrightarrow> \<not> distinct (map element ps)"
    using card_distinct [of "map element ps"] distinct_card [of "map element ps"] by auto
  ultimately show ?thesis by simp
qed

subsection \<open>The example directories\<close>

lemma example_paths:
  "isdir os_example ''/upf''" "isdir os_example ''/mixed''" "isdir os_example ''/twice''"
  "isdir os_example ''/empty''" "\<not> isdir os_example ''/nowhere''"
  "listdir os_example ''/upf'' = [''Cu.UPF'']"
  "listdir os_example ''/mixed'' = [''Cu.UPF'', ''copper.upf'']"
  "listdir os_example ''/twice'' = [''Fe.upf'', ''Fe2.upf'']"
  "listdir os_example ''/empty'' = []"
  "isdir os_example ''/odd''"
  "listdir os_example ''/odd'' = [''Xx.upf'']"
  by (simp_all add: os_example_def)

lemma example_files:
  "isfile os_example (path_join ''/upf'' ''Cu.UPF'')"
  "isfile os_example (path_join ''/mixed'' ''Cu.UPF'')"
  "isfile os_example (path_join ''/mixed'' ''copper.upf'')"
  "isfile os_example (path_join ''/twice'' ''Fe.upf'')"
  "isfile os_example (path_join ''/twice'' ''Fe2.upf'')"
  "isfile os_example (path_join ''/odd'' ''Xx.upf'')"
  by (simp_all add: os_example_def path_join_def)

lemma example_matches:
  "match_element os_example ''Cu.UPF'' = Some ''Cu''"
  "match_element os_example ''Fe.upf'' = Some ''Fe''"
  "match_element os_example ''copper.upf'' = None"
  "match_element os_example ''Xx.upf'' = Some ''Xx''"
  by (simp_all add: match_element_def letters_then_ext_def ascii_letter_def re_word_def)

lemma example_setter:
  "setter_example p ''Cu'' = Inr (p\<lparr>element := Some ''Cu''\<rparr>)"
  "setter_example p ''Fe'' = Inr (p\<lparr>element := Some ''Fe''\<rparr>)"
  "setter_example p ''Xx'' = Inl (ValueError (InvalidElement ''Xx''))"
  by (simp_all add: setter_example_def element_symbols_def)

lemma example_entries:
  "parse_entry cls_example os_example construct_example setter_example ''/mixed'' ''Cu.UPF''
     = Inr ((unset_node ''Cu.UPF'')\<lparr>element := Some ''Cu''\<rparr>)"
  "parse_entry cls_example os_example construct_example setter_example ''/twice'' ''Fe.upf''
     = Inr ((unset_node ''Fe.upf'')\<lparr>element := Some ''Fe''\<rparr>)"
  "parse_entry cls_example os_example construct_example setter_example ''/twice'' ''Fe2.upf''
     = Inr ((unset_node ''Fe2.upf'')\<lparr>element := Some ''Fe''\<rparr>)"
  by (simp_all add: parse_entry_def Let_def example_files example_matches example_setter
      construct_example_def unset_node_def)



theorem parse_post_validation_witness:
  "isdir os_example ''/twice'' \<and>
   parse_files cls_example os_example construct_example setter_example ''/twice'' (listdir os_example ''/twice'') []
     = Inr [(unset_node ''Fe.upf'')\<lparr>element := Some ''Fe''\<rparr>,
            (unset_node ''Fe2.upf'')\<lparr>element := Some ''Fe''\<rparr>] \<and>
   parse_pseudos_from_directory cls_example os_example construct_example setter_example ''/twice''
     = Inl (ValueError (DuplicateElements ''/twice'')) \<and>
   isdir os_example ''/empty'' \<and>
   parse_files cls_example os_example construct_example setter_example ''/empty'' (listdir os_example ''/empty'') []
     = Inr [] \<and>
   parse_pseudos_from_directory cls_example os_example construct_example setter_example ''/empty''
     = Inl (ValueError (NoPseudosParsed ''/empty''))"
proof -
  have t: "parse_files cls_example os_example construct_example setter_example ''/twice''
      (listdir os_example ''/twice'') []
     = Inr [(unset_node ''Fe.upf'')\<lparr>element := Some ''Fe''\<rparr>,
            (unset_node ''Fe2.upf'')\<lparr>element := Some ''Fe''\<rparr>]"
    by (simp add: example_paths example_entries)
  have e: "parse_files cls_example os_example construct_example setter_example ''/empty''
      (listdir os_example ''/empty'') [] = Inr []"
    by (simp add: example_paths)
  from parse_post_validation [OF example_paths(3) t]
  have a: "parse_pseudos_from_directory cls_example os_example construct_example setter_example ''/twice''
     = Inl (ValueError (DuplicateElements ''/twice''))"
    by simp
  from parse_post_validation [OF example_paths(4) e]
  have b: "parse_pseudos_from_directory cls_example os_example construct_example setter_example ''/empty''
     = Inl (ValueError (NoPseudosParsed ''/empty''))"
    by simp
  from example_paths(3,4) t e a b show ?thesis by simp
qed

section \<open>Creating a family under a label that is taken\<close>

text \<open>
  C9, as amended. When a group with the label exists, \<^verbatim>\<open>create_from_folder\<close> raises
  \<^verbatim>\<open>ValueError\<close> with the message that the family already exists, before it
  constructs a family, reads the directory or stores anything: the database is what it
  was. \<^verbatim>\<open>ValueError\<close> is also the class raised for a path that is not a directory and
  for duplicate elements.
\<close>

theorem create_from_folder_label_exists:
  "groups db lbl = Some existing \<Longrightarrow>
     create_from_folder cls os construct set_element g db dirpath lbl descr
       = (Inl (ValueError (AlreadyExists (fc_name cls) lbl)), db)"
  by (simp add: create_from_folder_def objects_get_def)


theorem create_from_folder_label_exists_witness:
  "groups db_sssp ''SSSP'' = Some fam_fe \<and>
   create_from_folder cls_example os_example construct_example setter_example append_nodes db_sssp
       ''/upf'' ''SSSP'' None
     = (Inl (ValueError (AlreadyExists ''PseudoPotentialFamily'' ''SSSP'')), db_sssp)"
proof -
  have g: "groups db_sssp ''SSSP'' = Some fam_fe" by (simp add: db_sssp_def)
  have n: "fc_name cls_example = ''PseudoPotentialFamily''" by (simp add: cls_example_def)
  from create_from_folder_label_exists [OF g, of cls_example os_example construct_example setter_example
      append_nodes "''/upf''" None] g n
  show ?thesis by simp
qed

text \<open>
  The claim C9 as written asks for an exception class of its own. The exception for a
  label that is taken and the exception for a path that is not a directory are both a
  \<^verbatim>\<open>ValueError\<close>.
\<close>

theorem create_from_folder_label_exists_counterexample:
  "groups db_sssp ''SSSP'' = Some fam_fe \<and>
   fst (create_from_folder cls_example os_example construct_example setter_example append_nodes db_sssp
         ''/upf'' ''SSSP'' None)
     = Inl (ValueError (AlreadyExists ''PseudoPotentialFamily'' ''SSSP'')) \<and>
   parse_pseudos_from_directory cls_example os_example construct_example setter_example ''/nowhere''
     = Inl (ValueError (NotADirectory ''/nowhere'')) \<and>
   is_ValueError (ValueError (AlreadyExists ''PseudoPotentialFamily'' ''SSSP'')) \<and>
   is_ValueError (ValueError (NotADirectory ''/nowhere''))"
  by (simp add: create_from_folder_def objects_get_def db_sssp_def cls_example_def
      parse_pseudos_from_directory_def example_paths)

end
